theory Spec2Isabelle
  imports Main "HOL-Library.Word" "HOL-Library.Sublist"
begin

section \<open>The plain-text printer of etcdctl (printer_simple.go)\<close>

text \<open>
  Go strings and byte slices are byte sequences: both are \<^typ>\<open>string\<close> here, a list of
  8-bit characters. The printer only writes: its effect is the text appended to the two
  process streams, which are threaded through every method as an explicit state.
\<close>

subsection \<open>Output streams and the fmt calls\<close>

record sinks =
  stdout :: string
  stderr :: string

definition nl :: string where
  "nl = [CHR 0x0A]"

definition tab :: string where
  "tab = [CHR 0x09]"

definition nul :: string where
  "nul = [CHR 0x00]"

text \<open>\<open>fmt.Print\<close> and \<open>fmt.Printf\<close>: the argument is the text after interpolation.\<close>

definition fmt_Print :: "string \<Rightarrow> sinks \<Rightarrow> sinks" where
  "fmt_Print txt st = st\<lparr>stdout := stdout st @ txt\<rparr>"

definition fmt_Printf :: "string \<Rightarrow> sinks \<Rightarrow> sinks" where
  "fmt_Printf txt st = fmt_Print txt st"

definition fmt_Println :: "string \<Rightarrow> sinks \<Rightarrow> sinks" where
  "fmt_Println txt st = fmt_Print (txt @ nl) st"

text \<open>\<open>fmt.Fprintf(os.Stderr, ...)\<close>.\<close>

definition fmt_Fprintf_Stderr :: "string \<Rightarrow> sinks \<Rightarrow> sinks" where
  "fmt_Fprintf_Stderr txt st = st\<lparr>stderr := stderr st @ txt\<rparr>"

subsection \<open>How fmt renders the verbs the printer uses\<close>

definition digit_char :: "nat \<Rightarrow> char" where
  "digit_char d = ''0123456789abcdef'' ! d"

text \<open>The digits of \<open>n\<close> in base \<open>b\<close>, most significant first (\<open>strconv.FormatUint\<close>).\<close>

function FormatUint :: "nat \<Rightarrow> nat \<Rightarrow> string" where
  "FormatUint n b =
     (if 2 \<le> b \<and> b \<le> n then FormatUint (n div b) b @ [digit_char (n mod b)]
      else [digit_char n])"
  by pat_completeness auto
termination
  by (relation "measure fst") auto

declare FormatUint.simps [simp del]

text \<open>\<open>%d\<close> of a signed integer.\<close>

definition fmt_d :: "int \<Rightarrow> string" where
  "fmt_d i = (if i < 0 then ''-'' @ FormatUint (nat (- i)) 10 else FormatUint (nat i) 10)"

text \<open>
  \<open>%016x\<close> of a signed integer: lower-case hexadecimal digits of the magnitude, filled with
  zeros to sixteen characters, the sign taking one of them.
\<close>

definition fmt_016x :: "int \<Rightarrow> string" where
  "fmt_016x i =
     (let ds = FormatUint (nat \<bar>i\<bar>) 16;
          prec = (if i < 0 then 15 else 16)
      in (if i < 0 then ''-'' else []) @ replicate (prec - length ds) (CHR ''0'') @ ds)"

text \<open>\<open>%16x\<close> of an unsigned integer: the hexadecimal digits, right-justified with blanks.\<close>

definition fmt_16x :: "nat \<Rightarrow> string" where
  "fmt_16x n = (let ds = FormatUint n 16 in replicate (16 - length ds) (CHR '' '') @ ds)"

text \<open>\<open>strings.Join\<close>.\<close>

fun strings_Join :: "string list \<Rightarrow> string \<Rightarrow> string" where
  "strings_Join [] sep = []"
| "strings_Join [x] sep = x"
| "strings_Join (x # y # ys) sep = x @ sep @ strings_Join (y # ys) sep"

text \<open>\<open>%v\<close> of a \<open>[]string\<close>: the elements between brackets, one blank between two.\<close>

definition fmt_v_strings :: "string list \<Rightarrow> string" where
  "fmt_v_strings xs = ''['' @ strings_Join xs '' '' @ '']''"

text \<open>\<open>fmt.Println\<close> of a \<open>bool\<close>.\<close>

definition fmt_bool :: "bool \<Rightarrow> string" where
  "fmt_bool b = (if b then ''true'' else ''false'')"

subsection \<open>Collaborators outside printer_simple.go\<close>

text \<open>\<open>mvccpb.KeyValue\<close>; the printer reads the key and the value only.\<close>

record KeyValue =
  Key :: string
  Value :: string

text \<open>The two lower-case hexadecimal digits of every byte.\<close>

definition hex_EncodeToString :: "string \<Rightarrow> string" where
  "hex_EncodeToString bs =
     concat (map (\<lambda>c. [digit_char (of_char c div 16), digit_char (of_char c mod 16)]) bs)"

text \<open>
  Modelled from the spec: \<open>printKV\<close>, the key/value encoder, is declared in another file of
  the package. In hex mode key and value are rendered as the hexadecimal digit pairs of their
  bytes (lower-case, no separators, no prefix), otherwise verbatim; with \<open>valueOnly\<close> only
  the value line is written, otherwise the key line and then the value line.
\<close>

definition printKV :: "bool \<Rightarrow> bool \<Rightarrow> KeyValue \<Rightarrow> sinks \<Rightarrow> sinks" where
  "printKV hex vOnly kv st =
     (let k = (if hex then hex_EncodeToString (Key kv) else Key kv);
          v = (if hex then hex_EncodeToString (Value kv) else Value kv);
          st = (if \<not> vOnly then fmt_Println k st else st)
      in fmt_Println v st)"

text \<open>
  Modelled from the spec: \<open>v3.GetPrefixRangeEnd\<close> belongs to the client package. It is the
  big-endian successor of the key: increment the last byte that is not \<open>0xFF\<close> and drop all
  trailing \<open>0xFF\<close> bytes; for a key made of \<open>0xFF\<close> bytes only there is no successor and
  the result is empty.
\<close>

definition GetPrefixRangeEnd :: "string \<Rightarrow> string" where
  "GetPrefixRangeEnd key =
     (case dropWhile (\<lambda>c. c = CHR 0xFF) (rev key) of
        [] \<Rightarrow> []
      | c # cs \<Rightarrow> rev cs @ [char_of (of_char c + (1::nat))])"

text \<open>
  The table builders for member lists, endpoint status and endpoint hashes, the text that
  \<open>%+v\<close> gives a protobuf message (an alarm member, a whole response operation) are opaque:
  the methods that use one take it as their first argument.
\<close>

type_synonym 'r tableMaker = "'r \<Rightarrow> string list \<times> string list list"

text \<open>\<open>types.ID.String\<close>: the identifier in hexadecimal, without padding.\<close>

definition types_ID_String :: "64 word \<Rightarrow> string" where
  "types_ID_String i = FormatUint (unat i) 16"

subsection \<open>The printer and the responses it reads\<close>

definition rootRole :: string where
  "rootRole = ''root''"

record simplePrinter =
  isHex :: bool
  valueOnly :: bool

text \<open>\<open>Deleted\<close> is an \<open>int64\<close>.\<close>

record DeleteResponse =
  Deleted :: "64 word"
  PrevKvs :: "KeyValue list"

record GetResponse =
  Kvs :: "KeyValue list"

text \<open>\<open>PrevKv\<close> is a pointer: \<open>None\<close> is \<open>nil\<close>.\<close>

record PutResponse =
  PrevKv :: "KeyValue option"

text \<open>
  \<open>pb.ResponseOp\<close>: the dynamic type of its \<open>Response\<close> field. The last constructor stands
  for every value that is none of the three the printer knows.
\<close>

datatype 'u ResponseOp =
    ResponseOp_ResponseDeleteRange DeleteResponse
  | ResponseOp_ResponsePut PutResponse
  | ResponseOp_ResponseRange GetResponse
  | ResponseOp_unknown 'u

record 'u TxnResponse =
  Succeeded :: bool
  Responses :: "'u ResponseOp list"

text \<open>
  \<open>mvccpb.Event\<close>; the two event types print as their names. An event always carries
  \<open>Kv\<close>, while \<open>PrevKv\<close> may be \<open>nil\<close>.
\<close>

datatype Event_EventType = PUT | DELETE

fun EventType_String :: "Event_EventType \<Rightarrow> string" where
  "EventType_String PUT = ''PUT''"
| "EventType_String DELETE = ''DELETE''"

record Event =
  Type :: Event_EventType
  Kv :: KeyValue
  PrevKv :: "KeyValue option"

record WatchResponse =
  Events :: "Event list"

text \<open>Lease identifiers and times to live are \<open>int64\<close>.\<close>

record LeaseGrantResponse =
  ID :: "64 word"
  TTL :: "64 word"

record LeaseKeepAliveResponse =
  ID :: "64 word"
  TTL :: "64 word"

record LeaseTimeToLiveResponse =
  ID :: "64 word"
  TTL :: "64 word"
  GrantedTTL :: "64 word"
  Keys :: "string list"

record LeaseStatus =
  ID :: "64 word"

record LeaseLeasesResponse =
  Leases_list :: "LeaseStatus list"

record 'a AlarmResponse =
  Alarms :: "'a list"

text \<open>Member and cluster identifiers are \<open>uint64\<close>.\<close>

record ResponseHeader =
  ClusterId :: "64 word"

record Member =
  ID :: "64 word"
  IsLearner :: bool

record MemberAddResponse =
  Header :: ResponseHeader
  Member :: Member

record MemberRemoveResponse =
  Header :: ResponseHeader

record MemberUpdateResponse =
  Header :: ResponseHeader

record MemberPromoteResponse =
  Header :: ResponseHeader

text \<open>
  \<open>epHealth\<close>, declared with the endpoint command; \<open>Took\<close> holds the elapsed time as
  text.
\<close>

record epHealth =
  Ep :: string
  Health :: bool
  Took :: string
  Error :: string

record DowngradeResponse =
  Version :: string

datatype PermissionType = PermRead | PermWrite | PermReadWrite

record Permission =
  PermType :: PermissionType
  Key :: string
  RangeEnd :: string

text \<open>\<open>Perm\<close> is a slice: \<open>None\<close> is the \<open>nil\<close> slice, over which a loop does nothing.\<close>

record AuthRoleGetResponse =
  Perm :: "Permission list option"

definition range_of :: "'a list option \<Rightarrow> 'a list" where
  "range_of xs = (case xs of None \<Rightarrow> [] | Some ys \<Rightarrow> ys)"

record AuthRoleListResponse =
  Roles :: "string list"

record AuthUserGetResponse =
  Roles :: "string list"

record AuthUserListResponse =
  Users :: "string list"

record AuthStatusResponse =
  Enabled :: bool
  AuthRevision :: "64 word"

text \<open>Responses that carry a header only, which the printer never reads.\<close>

type_synonym LeaseRevokeResponse = unit
type_synonym MoveLeaderResponse = unit
type_synonym AuthRoleAddResponse = unit
type_synonym AuthRoleDeleteResponse = unit
type_synonym AuthRoleGrantPermissionResponse = unit
type_synonym AuthRoleRevokePermissionResponse = unit
type_synonym AuthUserAddResponse = unit
type_synonym AuthUserChangePasswordResponse = unit
type_synonym AuthUserGrantRoleResponse = unit
type_synonym AuthUserRevokeRoleResponse = unit
type_synonym AuthUserDeleteResponse = unit

subsection \<open>The methods\<close>

definition Del :: "simplePrinter \<Rightarrow> DeleteResponse \<Rightarrow> sinks \<Rightarrow> sinks" where
  "Del s resp st =
     (let st = fmt_Println (fmt_d (sint (Deleted resp))) st
      in fold (\<lambda>kv. printKV (isHex s) (valueOnly s) kv) (PrevKvs resp) st)"

definition Get :: "simplePrinter \<Rightarrow> GetResponse \<Rightarrow> sinks \<Rightarrow> sinks" where
  "Get s resp st = fold (\<lambda>kv. printKV (isHex s) (valueOnly s) kv) (Kvs resp) st"

definition Put :: "simplePrinter \<Rightarrow> PutResponse \<Rightarrow> sinks \<Rightarrow> sinks" where
  "Put s r st =
     (let st = fmt_Println ''OK'' st
      in case PutResponse.PrevKv r of
           Some kv \<Rightarrow> printKV (isHex s) (valueOnly s) kv st
         | None \<Rightarrow> st)"

text \<open>The body of the loop of \<open>Txn\<close>, for one response operation.\<close>

definition Txn_step :: "('u ResponseOp \<Rightarrow> string) \<Rightarrow> simplePrinter \<Rightarrow> 'u ResponseOp \<Rightarrow> sinks \<Rightarrow> sinks" where
  "Txn_step fmt_plus_v s r st =
     (let st = fmt_Println [] st
      in case r of
           ResponseOp_ResponseDeleteRange v \<Rightarrow> Del s v st
         | ResponseOp_ResponsePut v \<Rightarrow> Put s v st
         | ResponseOp_ResponseRange v \<Rightarrow> Get s v st
         | ResponseOp_unknown u \<Rightarrow> fmt_Printf (''unexpected response '' @ fmt_plus_v r @ nl) st)"

definition Txn :: "('u ResponseOp \<Rightarrow> string) \<Rightarrow> simplePrinter \<Rightarrow> 'u TxnResponse \<Rightarrow> sinks \<Rightarrow> sinks" where
  "Txn fmt_plus_v s resp st =
     (let st = (if Succeeded resp then fmt_Println ''SUCCESS'' st
                else fmt_Println ''FAILURE'' st)
      in fold (Txn_step fmt_plus_v s) (Responses resp) st)"

definition Watch :: "simplePrinter \<Rightarrow> WatchResponse \<Rightarrow> sinks \<Rightarrow> sinks" where
  "Watch s resp st =
     fold (\<lambda>e st.
             let st = fmt_Println (EventType_String (Type e)) st;
                 st = (case Event.PrevKv e of
                         Some kv \<Rightarrow> printKV (isHex s) (valueOnly s) kv st
                       | None \<Rightarrow> st)
             in printKV (isHex s) (valueOnly s) (Kv e) st)
          (Events resp) st"

definition Grant :: "simplePrinter \<Rightarrow> LeaseGrantResponse \<Rightarrow> sinks \<Rightarrow> sinks" where
  "Grant s resp st =
     fmt_Printf (''lease '' @ fmt_016x (sint (LeaseGrantResponse.ID resp)) @ '' granted with TTL(''
                   @ fmt_d (sint (LeaseGrantResponse.TTL resp)) @ ''s)'' @ nl) st"

definition Revoke :: "simplePrinter \<Rightarrow> 64 word \<Rightarrow> LeaseRevokeResponse \<Rightarrow> sinks \<Rightarrow> sinks" where
  "Revoke s ident r st = fmt_Printf (''lease '' @ fmt_016x (sint ident) @ '' revoked'' @ nl) st"

definition KeepAlive :: "simplePrinter \<Rightarrow> LeaseKeepAliveResponse \<Rightarrow> sinks \<Rightarrow> sinks" where
  "KeepAlive s resp st =
     fmt_Printf (''lease '' @ fmt_016x (sint (LeaseKeepAliveResponse.ID resp))
                   @ '' keepalived with TTL('' @ fmt_d (sint (LeaseKeepAliveResponse.TTL resp))
                   @ '')'' @ nl) st"

definition TimeToLive :: "simplePrinter \<Rightarrow> LeaseTimeToLiveResponse \<Rightarrow> bool \<Rightarrow> sinks \<Rightarrow> sinks" where
  "TimeToLive s resp keys st =
     (if GrantedTTL resp = 0 \<and> LeaseTimeToLiveResponse.TTL resp = - 1 then
        fmt_Printf (''lease '' @ fmt_016x (sint (LeaseTimeToLiveResponse.ID resp))
                      @ '' already expired'' @ nl) st
      else
        let txt = ''lease '' @ fmt_016x (sint (LeaseTimeToLiveResponse.ID resp))
                    @ '' granted with TTL('' @ fmt_d (sint (GrantedTTL resp))
                    @ ''s), remaining('' @ fmt_d (sint (LeaseTimeToLiveResponse.TTL resp)) @ ''s)'';
            txt = (if keys then
                     let ks = map (\<lambda>k. k) (Keys resp)
                     in txt @ '', attached keys('' @ fmt_v_strings ks @ '')''
                   else txt)
        in fmt_Println txt st)"

definition Leases :: "simplePrinter \<Rightarrow> LeaseLeasesResponse \<Rightarrow> sinks \<Rightarrow> sinks" where
  "Leases s resp st =
     (let st = fmt_Printf (''found '' @ fmt_d (int (length (Leases_list resp))) @ '' leases'' @ nl) st
      in fold (\<lambda>item. fmt_Printf (fmt_016x (sint (LeaseStatus.ID item)) @ nl)) (Leases_list resp) st)"

definition Alarm :: "('a \<Rightarrow> string) \<Rightarrow> simplePrinter \<Rightarrow> 'a AlarmResponse \<Rightarrow> sinks \<Rightarrow> sinks" where
  "Alarm fmt_plus_v s resp st = fold (\<lambda>e. fmt_Printf (fmt_plus_v e @ nl)) (Alarms resp) st"

definition MemberAdd :: "simplePrinter \<Rightarrow> MemberAddResponse \<Rightarrow> sinks \<Rightarrow> sinks" where
  "MemberAdd s r st =
     (let asLearner = (if IsLearner (Member r) then '' as learner '' else '' '')
      in fmt_Printf (''Member '' @ fmt_16x (unat (Member.ID (Member r))) @ '' added'' @ asLearner
                       @ ''to cluster '' @ fmt_16x (unat (ClusterId (MemberAddResponse.Header r)))
                       @ nl) st)"

definition MemberRemove :: "simplePrinter \<Rightarrow> 64 word \<Rightarrow> MemberRemoveResponse \<Rightarrow> sinks \<Rightarrow> sinks" where
  "MemberRemove s ident r st =
     fmt_Printf (''Member '' @ fmt_16x (unat ident) @ '' removed from cluster ''
                   @ fmt_16x (unat (ClusterId (MemberRemoveResponse.Header r))) @ nl) st"

definition MemberUpdate :: "simplePrinter \<Rightarrow> 64 word \<Rightarrow> MemberUpdateResponse \<Rightarrow> sinks \<Rightarrow> sinks" where
  "MemberUpdate s ident r st =
     fmt_Printf (''Member '' @ fmt_16x (unat ident) @ '' updated in cluster ''
                   @ fmt_16x (unat (ClusterId (MemberUpdateResponse.Header r))) @ nl) st"

definition MemberPromote :: "simplePrinter \<Rightarrow> 64 word \<Rightarrow> MemberPromoteResponse \<Rightarrow> sinks \<Rightarrow> sinks" where
  "MemberPromote s ident r st =
     fmt_Printf (''Member '' @ fmt_16x (unat ident) @ '' promoted in cluster ''
                   @ fmt_16x (unat (ClusterId (MemberPromoteResponse.Header r))) @ nl) st"

definition MemberList :: "'r tableMaker \<Rightarrow> simplePrinter \<Rightarrow> 'r \<Rightarrow> sinks \<Rightarrow> sinks" where
  "MemberList makeMemberListTable s resp st =
     (let rows = snd (makeMemberListTable resp)
      in fold (\<lambda>row. fmt_Println (strings_Join row '', '')) rows st)"

definition EndpointHealth :: "simplePrinter \<Rightarrow> epHealth list \<Rightarrow> sinks \<Rightarrow> sinks" where
  "EndpointHealth s hs st =
     fold (\<lambda>h st.
             if Error h = [] then
               fmt_Printf (Ep h @ '' is healthy: successfully committed proposal: took = ''
                             @ Took h @ nl) st
             else
               fmt_Fprintf_Stderr (Ep h @ '' is unhealthy: failed to commit proposal: ''
                                     @ Error h @ nl) st)
          hs st"

definition EndpointStatus :: "'r tableMaker \<Rightarrow> simplePrinter \<Rightarrow> 'r \<Rightarrow> sinks \<Rightarrow> sinks" where
  "EndpointStatus makeEndpointStatusTable s statusList st =
     (let rows = snd (makeEndpointStatusTable statusList)
      in fold (\<lambda>row. fmt_Println (strings_Join row '', '')) rows st)"

definition EndpointHashKV :: "'r tableMaker \<Rightarrow> simplePrinter \<Rightarrow> 'r \<Rightarrow> sinks \<Rightarrow> sinks" where
  "EndpointHashKV makeEndpointHashKVTable s hashList st =
     (let rows = snd (makeEndpointHashKVTable hashList)
      in fold (\<lambda>row. fmt_Println (strings_Join row '', '')) rows st)"

definition MoveLeader :: "simplePrinter \<Rightarrow> 64 word \<Rightarrow> 64 word \<Rightarrow> MoveLeaderResponse \<Rightarrow> sinks \<Rightarrow> sinks" where
  "MoveLeader s leader target r st =
     fmt_Printf (''Leadership transferred from '' @ types_ID_String leader @ '' to ''
                   @ types_ID_String target @ nl) st"

definition DowngradeValidate :: "simplePrinter \<Rightarrow> DowngradeResponse \<Rightarrow> sinks \<Rightarrow> sinks" where
  "DowngradeValidate s r st =
     fmt_Printf (''Downgrade validate success, cluster version '' @ Version r @ nl) st"

definition DowngradeEnable :: "simplePrinter \<Rightarrow> DowngradeResponse \<Rightarrow> sinks \<Rightarrow> sinks" where
  "DowngradeEnable s r st =
     fmt_Printf (''Downgrade enable success, cluster version '' @ Version r @ nl) st"

definition DowngradeCancel :: "simplePrinter \<Rightarrow> DowngradeResponse \<Rightarrow> sinks \<Rightarrow> sinks" where
  "DowngradeCancel s r st =
     fmt_Printf (''Downgrade cancel success, cluster version '' @ Version r @ nl) st"

definition RoleAdd :: "simplePrinter \<Rightarrow> string \<Rightarrow> AuthRoleAddResponse \<Rightarrow> sinks \<Rightarrow> sinks" where
  "RoleAdd s role r st = fmt_Printf (''Role '' @ role @ '' created'' @ nl) st"

text \<open>The closure \<open>printRange\<close> of \<open>RoleGet\<close>.\<close>

definition printRange :: "Permission \<Rightarrow> sinks \<Rightarrow> sinks" where
  "printRange perm st =
     (let sKey = Key perm;
          sRangeEnd = RangeEnd perm;
          st = (if sRangeEnd \<noteq> nul then
                  fmt_Printf (tab @ ''['' @ sKey @ '', '' @ sRangeEnd @ '')'') st
                else
                  fmt_Printf (tab @ ''['' @ sKey @ '', <open ended>'') st);
          st = (if GetPrefixRangeEnd sKey = sRangeEnd \<and> length sKey > 0 then
                  fmt_Printf ('' (prefix '' @ sKey @ '')'') st
                else st)
      in fmt_Print nl st)"

text \<open>The bodies of the two loops of \<open>RoleGet\<close>, for one permission.\<close>

definition RoleGet_read :: "Permission \<Rightarrow> sinks \<Rightarrow> sinks" where
  "RoleGet_read perm st =
     (if PermType perm = PermRead \<or> PermType perm = PermReadWrite then
        if length (RangeEnd perm) = 0 then fmt_Printf (tab @ Key perm @ nl) st
        else printRange perm st
      else st)"

definition RoleGet_write :: "Permission \<Rightarrow> sinks \<Rightarrow> sinks" where
  "RoleGet_write perm st =
     (if PermType perm = PermWrite \<or> PermType perm = PermReadWrite then
        if length (RangeEnd perm) = 0 then fmt_Printf (tab @ Key perm @ nl) st
        else printRange perm st
      else st)"

definition RoleGet :: "simplePrinter \<Rightarrow> string \<Rightarrow> AuthRoleGetResponse \<Rightarrow> sinks \<Rightarrow> sinks" where
  "RoleGet s role r st =
     (let st = fmt_Printf (''Role '' @ role @ nl) st
      in if rootRole = role \<and> Perm r = None then
           let st = fmt_Println ''KV Read:'' st;
               st = fmt_Println (tab @ ''[, <open ended>'') st;
               st = fmt_Println ''KV Write:'' st
           in fmt_Println (tab @ ''[, <open ended>'') st
         else
           let st = fmt_Println ''KV Read:'' st;
               st = fold RoleGet_read (range_of (Perm r)) st;
               st = fmt_Println ''KV Write:'' st
           in fold RoleGet_write (range_of (Perm r)) st)"

definition RoleList :: "simplePrinter \<Rightarrow> AuthRoleListResponse \<Rightarrow> sinks \<Rightarrow> sinks" where
  "RoleList s r st = fold (\<lambda>role. fmt_Printf (role @ nl)) (AuthRoleListResponse.Roles r) st"

definition RoleDelete :: "simplePrinter \<Rightarrow> string \<Rightarrow> AuthRoleDeleteResponse \<Rightarrow> sinks \<Rightarrow> sinks" where
  "RoleDelete s role r st = fmt_Printf (''Role '' @ role @ '' deleted'' @ nl) st"

definition RoleGrantPermission ::
  "simplePrinter \<Rightarrow> string \<Rightarrow> AuthRoleGrantPermissionResponse \<Rightarrow> sinks \<Rightarrow> sinks" where
  "RoleGrantPermission s role r st = fmt_Printf (''Role '' @ role @ '' updated'' @ nl) st"

definition RoleRevokePermission ::
  "simplePrinter \<Rightarrow> string \<Rightarrow> string \<Rightarrow> string \<Rightarrow> AuthRoleRevokePermissionResponse \<Rightarrow> sinks \<Rightarrow> sinks" where
  "RoleRevokePermission s role key end r st =
     (if length end = 0 then
        fmt_Printf (''Permission of key '' @ key @ '' is revoked from role '' @ role @ nl) st
      else if end \<noteq> nul then
        fmt_Printf (''Permission of range ['' @ key @ '', '' @ end @ '') is revoked from role ''
                      @ role @ nl) st
      else
        fmt_Printf (''Permission of range ['' @ key @ '', <open ended> is revoked from role ''
                      @ role @ nl) st)"

definition UserAdd :: "simplePrinter \<Rightarrow> string \<Rightarrow> AuthUserAddResponse \<Rightarrow> sinks \<Rightarrow> sinks" where
  "UserAdd s name r st = fmt_Printf (''User '' @ name @ '' created'' @ nl) st"

definition UserGet :: "simplePrinter \<Rightarrow> string \<Rightarrow> AuthUserGetResponse \<Rightarrow> sinks \<Rightarrow> sinks" where
  "UserGet s name r st =
     (let st = fmt_Printf (''User: '' @ name @ nl) st;
          st = fmt_Print ''Roles:'' st;
          st = fold (\<lambda>role. fmt_Printf ('' '' @ role)) (AuthUserGetResponse.Roles r) st
      in fmt_Print nl st)"

definition UserChangePassword :: "simplePrinter \<Rightarrow> AuthUserChangePasswordResponse \<Rightarrow> sinks \<Rightarrow> sinks" where
  "UserChangePassword s r st = fmt_Println ''Password updated'' st"

definition UserGrantRole ::
  "simplePrinter \<Rightarrow> string \<Rightarrow> string \<Rightarrow> AuthUserGrantRoleResponse \<Rightarrow> sinks \<Rightarrow> sinks" where
  "UserGrantRole s user role r st =
     fmt_Printf (''Role '' @ role @ '' is granted to user '' @ user @ nl) st"

definition UserRevokeRole ::
  "simplePrinter \<Rightarrow> string \<Rightarrow> string \<Rightarrow> AuthUserRevokeRoleResponse \<Rightarrow> sinks \<Rightarrow> sinks" where
  "UserRevokeRole s user role r st =
     fmt_Printf (''Role '' @ role @ '' is revoked from user '' @ user @ nl) st"

definition UserDelete :: "simplePrinter \<Rightarrow> string \<Rightarrow> AuthUserDeleteResponse \<Rightarrow> sinks \<Rightarrow> sinks" where
  "UserDelete s user r st = fmt_Printf (''User '' @ user @ '' deleted'' @ nl) st"

definition UserList :: "simplePrinter \<Rightarrow> AuthUserListResponse \<Rightarrow> sinks \<Rightarrow> sinks" where
  "UserList s r st = fold (\<lambda>user. fmt_Printf (user @ nl)) (Users r) st"

definition AuthStatus :: "simplePrinter \<Rightarrow> AuthStatusResponse \<Rightarrow> sinks \<Rightarrow> sinks" where
  "AuthStatus s r st =
     (let st = fmt_Println (''Authentication Status:'' @ '' '' @ fmt_bool (Enabled r)) st
      in fmt_Println (''AuthRevision:'' @ '' '' @ fmt_d (uint (AuthRevision r))) st)"

subsection \<open>What a method writes\<close>

text \<open>The text a method appends to each stream, read off a run that starts with both empty.\<close>

definition no_output :: sinks where
  "no_output = \<lparr>stdout = [], stderr = []\<rparr>"

definition out_of :: "(sinks \<Rightarrow> sinks) \<Rightarrow> string" where
  "out_of m = stdout (m no_output)"


text \<open>
  One call of a method of the printer with its arguments: the formatting entry points, one
  constructor for each. The opaque collaborators are collected in a record.
\<close>

record ('u, 'a, 'm, 'e, 'h) collaborators =
  fmt_ResponseOp :: "'u ResponseOp \<Rightarrow> string"
  fmt_AlarmMember :: "'a \<Rightarrow> string"
  makeMemberListTable :: "'m tableMaker"
  makeEndpointStatusTable :: "'e tableMaker"
  makeEndpointHashKVTable :: "'h tableMaker"

datatype ('u, 'a, 'm, 'e, 'h) call =
    Call_Del DeleteResponse
  | Call_Get GetResponse
  | Call_Put PutResponse
  | Call_Txn "'u TxnResponse"
  | Call_Watch WatchResponse
  | Call_Grant LeaseGrantResponse
  | Call_Revoke "64 word" LeaseRevokeResponse
  | Call_KeepAlive LeaseKeepAliveResponse
  | Call_TimeToLive LeaseTimeToLiveResponse bool
  | Call_Leases LeaseLeasesResponse
  | Call_Alarm "'a AlarmResponse"
  | Call_MemberAdd MemberAddResponse
  | Call_MemberRemove "64 word" MemberRemoveResponse
  | Call_MemberUpdate "64 word" MemberUpdateResponse
  | Call_MemberPromote "64 word" MemberPromoteResponse
  | Call_MemberList 'm
  | Call_EndpointHealth "epHealth list"
  | Call_EndpointStatus 'e
  | Call_EndpointHashKV 'h
  | Call_MoveLeader "64 word" "64 word" MoveLeaderResponse
  | Call_DowngradeValidate DowngradeResponse
  | Call_DowngradeEnable DowngradeResponse
  | Call_DowngradeCancel DowngradeResponse
  | Call_RoleAdd string AuthRoleAddResponse
  | Call_RoleGet string AuthRoleGetResponse
  | Call_RoleList AuthRoleListResponse
  | Call_RoleDelete string AuthRoleDeleteResponse
  | Call_RoleGrantPermission string AuthRoleGrantPermissionResponse
  | Call_RoleRevokePermission string string string AuthRoleRevokePermissionResponse
  | Call_UserAdd string AuthUserAddResponse
  | Call_UserGet string AuthUserGetResponse
  | Call_UserChangePassword AuthUserChangePasswordResponse
  | Call_UserGrantRole string string AuthUserGrantRoleResponse
  | Call_UserRevokeRole string string AuthUserRevokeRoleResponse
  | Call_UserDelete string AuthUserDeleteResponse
  | Call_UserList AuthUserListResponse
  | Call_AuthStatus AuthStatusResponse

fun invoke ::
  "('u, 'a, 'm, 'e, 'h) collaborators \<Rightarrow> simplePrinter \<Rightarrow> ('u, 'a, 'm, 'e, 'h) call \<Rightarrow> sinks \<Rightarrow> sinks" where
  "invoke c s (Call_Del resp) = Del s resp"
| "invoke c s (Call_Get resp) = Get s resp"
| "invoke c s (Call_Put r) = Put s r"
| "invoke c s (Call_Txn resp) = Txn (fmt_ResponseOp c) s resp"
| "invoke c s (Call_Watch resp) = Watch s resp"
| "invoke c s (Call_Grant resp) = Grant s resp"
| "invoke c s (Call_Revoke ident r) = Revoke s ident r"
| "invoke c s (Call_KeepAlive resp) = KeepAlive s resp"
| "invoke c s (Call_TimeToLive resp keys) = TimeToLive s resp keys"
| "invoke c s (Call_Leases resp) = Leases s resp"
| "invoke c s (Call_Alarm resp) = Alarm (fmt_AlarmMember c) s resp"
| "invoke c s (Call_MemberAdd r) = MemberAdd s r"
| "invoke c s (Call_MemberRemove ident r) = MemberRemove s ident r"
| "invoke c s (Call_MemberUpdate ident r) = MemberUpdate s ident r"
| "invoke c s (Call_MemberPromote ident r) = MemberPromote s ident r"
| "invoke c s (Call_MemberList resp) = MemberList (makeMemberListTable c) s resp"
| "invoke c s (Call_EndpointHealth hs) = EndpointHealth s hs"
| "invoke c s (Call_EndpointStatus statusList) = EndpointStatus (makeEndpointStatusTable c) s statusList"
| "invoke c s (Call_EndpointHashKV hashList) = EndpointHashKV (makeEndpointHashKVTable c) s hashList"
| "invoke c s (Call_MoveLeader leader target r) = MoveLeader s leader target r"
| "invoke c s (Call_DowngradeValidate r) = DowngradeValidate s r"
| "invoke c s (Call_DowngradeEnable r) = DowngradeEnable s r"
| "invoke c s (Call_DowngradeCancel r) = DowngradeCancel s r"
| "invoke c s (Call_RoleAdd role r) = RoleAdd s role r"
| "invoke c s (Call_RoleGet role r) = RoleGet s role r"
| "invoke c s (Call_RoleList r) = RoleList s r"
| "invoke c s (Call_RoleDelete role r) = RoleDelete s role r"
| "invoke c s (Call_RoleGrantPermission role r) = RoleGrantPermission s role r"
| "invoke c s (Call_RoleRevokePermission role key end r) = RoleRevokePermission s role key end r"
| "invoke c s (Call_UserAdd name r) = UserAdd s name r"
| "invoke c s (Call_UserGet name r) = UserGet s name r"
| "invoke c s (Call_UserChangePassword r) = UserChangePassword s r"
| "invoke c s (Call_UserGrantRole user role r) = UserGrantRole s user role r"
| "invoke c s (Call_UserRevokeRole user role r) = UserRevokeRole s user role r"
| "invoke c s (Call_UserDelete user r) = UserDelete s user r"
| "invoke c s (Call_UserList r) = UserList s r"
| "invoke c s (Call_AuthStatus r) = AuthStatus s r"

text \<open>
  \<open>writes m out err\<close>: whatever the streams hold, running \<open>m\<close> appends \<open>out\<close> to the
  standard output and \<open>err\<close> to the standard error, and changes nothing else.
\<close>

definition writes :: "(sinks \<Rightarrow> sinks) \<Rightarrow> string \<Rightarrow> string \<Rightarrow> bool" where
  "writes m out err = (\<forall>st. m st = st\<lparr>stdout := stdout st @ out, stderr := stderr st @ err\<rparr>)"

text \<open>A method that writes to the standard output only.\<close>

definition stdout_only :: "(sinks \<Rightarrow> sinks) \<Rightarrow> bool" where
  "stdout_only m = (\<exists>out. writes m out [])"

section \<open>Properties\<close>

subsection \<open>Composing appended text\<close>

lemma writesD: "writes m out err \<Longrightarrow> m st = st\<lparr>stdout := stdout st @ out, stderr := stderr st @ err\<rparr>"
  by (simp add: writes_def)

lemma writes_out_of: "writes m out err \<Longrightarrow> out_of m = out"
  by (simp add: writes_def out_of_def no_output_def)


lemma writes_Print: "writes (fmt_Print txt) txt []"
  by (simp add: writes_def fmt_Print_def)

lemma writes_Printf: "writes (fmt_Printf txt) txt []"
  by (simp add: writes_def fmt_Printf_def fmt_Print_def)

lemma writes_Println: "writes (fmt_Println txt) (txt @ nl) []"
  by (simp add: writes_def fmt_Println_def fmt_Print_def)

lemma writes_skip: "writes (\<lambda>st. st) [] []"
  by (simp add: writes_def)

lemma writes_seq:
  assumes "writes f o1 e1" and "writes g o2 e2"
  shows "writes (\<lambda>st. g (f st)) (o1 @ o2) (e1 @ e2)"
  using assms by (simp add: writes_def)

lemma writes_fold:
  assumes "\<And>x. x \<in> set xs \<Longrightarrow> writes (f x) (out x) (err x)"
  shows "writes (fold f xs) (concat (map out xs)) (concat (map err xs))"
  using assms
proof (induction xs)
  case Nil
  show ?case by (simp add: writes_def)
next
  case (Cons x xs)
  have hd: "writes (f x) (out x) (err x)" using Cons.prems by simp
  have tl: "writes (fold f xs) (concat (map out xs)) (concat (map err xs))"
    using Cons by simp
  show ?case using writes_seq [OF hd tl] by (simp add: comp_def)
qed

lemma concat_map_Nil: "concat (map (\<lambda>x. []) xs) = []"
  by (induction xs) simp_all

lemma writes_fold_stdout:
  assumes "\<And>x. x \<in> set xs \<Longrightarrow> \<exists>out. writes (f x) out []"
  shows "writes (fold f xs) (concat (map (\<lambda>x. out_of (f x)) xs)) []"
proof -
  have step: "writes (f x) (out_of (f x)) []" if "x \<in> set xs" for x
    using assms [OF that] writes_out_of by blast
  have "writes (fold f xs) (concat (map (\<lambda>x. out_of (f x)) xs)) (concat (map (\<lambda>x. []) xs))"
    by (rule writes_fold) (rule step)
  then show ?thesis by (simp only: concat_map_Nil)
qed

lemma writes_printKV:
  "writes (printKV hex vOnly kv)
     ((if vOnly then [] else (if hex then hex_EncodeToString (KeyValue.Key kv) else KeyValue.Key kv) @ nl)
        @ (if hex then hex_EncodeToString (Value kv) else Value kv) @ nl) []"
  by (simp add: writes_def printKV_def fmt_Println_def fmt_Print_def Let_def)

lemma stdout_printKV: "\<exists>out. writes (printKV hex vOnly kv) out []"
  using writes_printKV by blast

lemma writes_Get:
  "writes (Get s resp) (concat (map (\<lambda>kv. out_of (printKV (isHex s) (valueOnly s) kv)) (Kvs resp))) []"
  unfolding Get_def [abs_def] by (rule writes_fold_stdout) (rule stdout_printKV)

lemma writes_Del:
  "writes (Del s resp)
     (fmt_d (sint (Deleted resp)) @ nl
        @ concat (map (\<lambda>kv. out_of (printKV (isHex s) (valueOnly s) kv)) (PrevKvs resp))) []"
proof -
  have "writes (fold (\<lambda>kv. printKV (isHex s) (valueOnly s) kv) (PrevKvs resp))
          (concat (map (\<lambda>kv. out_of (printKV (isHex s) (valueOnly s) kv)) (PrevKvs resp))) []"
    by (rule writes_fold_stdout) (rule stdout_printKV)
  from writes_seq [OF writes_Println [of "fmt_d (sint (Deleted resp))"] this] show ?thesis
    by (simp add: Del_def [abs_def] Let_def)
qed

lemma writes_Put:
  "writes (Put s r)
     (''OK'' @ nl @ (case PutResponse.PrevKv r of
                       Some kv \<Rightarrow> out_of (printKV (isHex s) (valueOnly s) kv)
                     | None \<Rightarrow> [])) []"
proof (cases "PutResponse.PrevKv r")
  case None
  then show ?thesis
    using writes_Println [of "''OK''"] by (simp add: Put_def [abs_def] Let_def)
next
  case (Some kv)
  obtain out where kv: "writes (printKV (isHex s) (valueOnly s) kv) out []"
    using stdout_printKV by blast
  from writes_seq [OF writes_Println [of "''OK''"] kv] Some writes_out_of [OF kv] show ?thesis
    by (simp add: Put_def [abs_def] Let_def)
qed

lemma writes_Txn_step:
  "writes (Txn_step f s r)
     (nl @ (case r of
              ResponseOp_ResponseDeleteRange v \<Rightarrow> out_of (Del s v)
            | ResponseOp_ResponsePut v \<Rightarrow> out_of (Put s v)
            | ResponseOp_ResponseRange v \<Rightarrow> out_of (Get s v)
            | ResponseOp_unknown u \<Rightarrow> ''unexpected response '' @ f r @ nl)) []"
proof (cases r)
  case (ResponseOp_ResponseDeleteRange v)
  from writes_seq [OF writes_Println [of "[]"] writes_Del [of s v]]
  show ?thesis
    by (simp add: Txn_step_def [abs_def] ResponseOp_ResponseDeleteRange
        writes_out_of [OF writes_Del])
next
  case (ResponseOp_ResponsePut v)
  from writes_seq [OF writes_Println [of "[]"] writes_Put [of s v]]
  show ?thesis
    by (simp add: Txn_step_def [abs_def] ResponseOp_ResponsePut
        writes_out_of [OF writes_Put])
next
  case (ResponseOp_ResponseRange v)
  from writes_seq [OF writes_Println [of "[]"] writes_Get [of s v]]
  show ?thesis
    by (simp add: Txn_step_def [abs_def] ResponseOp_ResponseRange
        writes_out_of [OF writes_Get])
next
  case (ResponseOp_unknown u)
  from writes_seq [OF writes_Println [of "[]"] writes_Printf]
  show ?thesis
    by (simp add: Txn_step_def [abs_def] ResponseOp_unknown)
qed

lemma writes_Txn:
  "writes (Txn f s resp)
     ((if Succeeded resp then ''SUCCESS'' else ''FAILURE'') @ nl
        @ concat (map (\<lambda>r. out_of (Txn_step f s r)) (Responses resp))) []"
proof -
  have loop: "writes (fold (Txn_step f s) (Responses resp))
                (concat (map (\<lambda>r. out_of (Txn_step f s r)) (Responses resp))) []"
    by (rule writes_fold_stdout) (use writes_Txn_step in blast)
  show ?thesis
  proof (cases "Succeeded resp")
    case True
    with writes_seq [OF writes_Println [of "''SUCCESS''"] loop] show ?thesis
      by (simp add: Txn_def [abs_def] Let_def)
  next
    case False
    with writes_seq [OF writes_Println [of "''FAILURE''"] loop] show ?thesis
      by (simp add: Txn_def [abs_def] Let_def)
  qed
qed

text \<open>
  Claim C1. \<open>Txn\<close> first writes one line, \<open>SUCCESS\<close> when the response succeeded and
  \<open>FAILURE\<close> otherwise. Then, for every response operation in the order of the response, it
  writes an empty line followed by what \<open>Del\<close>, \<open>Put\<close> or \<open>Get\<close> writes for the payload,
  according to the tag; for any other tag it writes the line \<open>unexpected response\<close> with the
  text of the operation, and the loop goes on with the next operation. Nothing goes to
  the error stream. Here what a rule writes is the text it appends to the standard output,
  the same whatever was written before.
\<close>

theorem Txn_dispatch:
  "Txn f s resp st =
     st\<lparr>stdout := stdout st @ (if Succeeded resp then ''SUCCESS'' else ''FAILURE'') @ nl
           @ concat (map (\<lambda>r. nl @ (case r of
                ResponseOp_ResponseDeleteRange v \<Rightarrow> out_of (Del s v)
              | ResponseOp_ResponsePut v \<Rightarrow> out_of (Put s v)
              | ResponseOp_ResponseRange v \<Rightarrow> out_of (Get s v)
              | ResponseOp_unknown u \<Rightarrow> ''unexpected response '' @ f r @ nl))
             (Responses resp))\<rparr>
   \<and> Del s d st = st\<lparr>stdout := stdout st @ out_of (Del s d)\<rparr>
   \<and> Put s p st = st\<lparr>stdout := stdout st @ out_of (Put s p)\<rparr>
   \<and> Get s g st = st\<lparr>stdout := stdout st @ out_of (Get s g)\<rparr>"
proof (intro conjI)
  have "out_of (Txn_step f s r) =
          nl @ (case r of
                  ResponseOp_ResponseDeleteRange v \<Rightarrow> out_of (Del s v)
                | ResponseOp_ResponsePut v \<Rightarrow> out_of (Put s v)
                | ResponseOp_ResponseRange v \<Rightarrow> out_of (Get s v)
                | ResponseOp_unknown u \<Rightarrow> ''unexpected response '' @ f r @ nl)" for r
    by (rule writes_out_of [OF writes_Txn_step])
  with writesD [OF writes_Txn, of f s resp st]
  show "Txn f s resp st =
     st\<lparr>stdout := stdout st @ (if Succeeded resp then ''SUCCESS'' else ''FAILURE'') @ nl
           @ concat (map (\<lambda>r. nl @ (case r of
                ResponseOp_ResponseDeleteRange v \<Rightarrow> out_of (Del s v)
              | ResponseOp_ResponsePut v \<Rightarrow> out_of (Put s v)
              | ResponseOp_ResponseRange v \<Rightarrow> out_of (Get s v)
              | ResponseOp_unknown u \<Rightarrow> ''unexpected response '' @ f r @ nl))
             (Responses resp))\<rparr>"
    by simp
next
  show "Del s d st = st\<lparr>stdout := stdout st @ out_of (Del s d)\<rparr>"
    using writesD [OF writes_Del, of s d st] by (simp add: writes_out_of [OF writes_Del])
next
  show "Put s p st = st\<lparr>stdout := stdout st @ out_of (Put s p)\<rparr>"
    using writesD [OF writes_Put, of s p st] by (simp add: writes_out_of [OF writes_Put])
next
  show "Get s g st = st\<lparr>stdout := stdout st @ out_of (Get s g)\<rparr>"
    using writesD [OF writes_Get, of s g st] by (simp add: writes_out_of [OF writes_Get])
qed

lemma stdout_onlyI: "writes m out [] \<Longrightarrow> stdout_only m"
  by (auto simp: stdout_only_def)

lemma stdout_only_stderr: "stdout_only m \<Longrightarrow> stderr (m st) = stderr st"
  by (auto simp: stdout_only_def writes_def)

lemma stdout_only_seq:
  "stdout_only f \<Longrightarrow> stdout_only g \<Longrightarrow> stdout_only (\<lambda>st. g (f st))"
  unfolding stdout_only_def using writes_seq [where ?e1.0 = "[]" and ?e2.0 = "[]"]
  by (metis append_Nil)

lemma stdout_only_fold:
  assumes "\<And>x. x \<in> set xs \<Longrightarrow> stdout_only (f x)"
  shows "stdout_only (fold f xs)"
  using writes_fold_stdout [of xs f] assms unfolding stdout_only_def by blast

lemma stdout_only_direct:
  assumes "\<And>st. m st = st\<lparr>stdout := stdout st @ out_of m\<rparr>"
  shows "stdout_only m"
  unfolding stdout_only_def writes_def using assms by (intro exI [of _ "out_of m"]) simp

lemmas fmt_defs = fmt_Printf_def fmt_Print_def fmt_Println_def out_of_def no_output_def Let_def

lemma stdout_only_Print [simp]: "stdout_only (fmt_Print txt)"
  using writes_Print by (rule stdout_onlyI)

lemma stdout_only_Printf [simp]: "stdout_only (fmt_Printf txt)"
  using writes_Printf by (rule stdout_onlyI)

lemma stdout_only_Println [simp]: "stdout_only (fmt_Println txt)"
  using writes_Println by (rule stdout_onlyI)

lemma stdout_only_printKV [simp]: "stdout_only (printKV hex vOnly kv)"
  using writes_printKV by (rule stdout_onlyI)

lemma stdout_only_Del: "stdout_only (Del s resp)"
  using writes_Del by (rule stdout_onlyI)

lemma stdout_only_Get: "stdout_only (Get s resp)"
  using writes_Get by (rule stdout_onlyI)

lemma stdout_only_Put: "stdout_only (Put s r)"
  using writes_Put by (rule stdout_onlyI)

lemma stdout_only_Txn: "stdout_only (Txn f s resp)"
  using writes_Txn by (rule stdout_onlyI)

lemma stdout_only_Watch: "stdout_only (Watch s resp)"
  unfolding Watch_def [abs_def]
proof (rule stdout_only_fold)
  fix e
  show "stdout_only (\<lambda>st. let st = fmt_Println (EventType_String (Type e)) st;
                              st = (case Event.PrevKv e of
                                      Some kv \<Rightarrow> printKV (isHex s) (valueOnly s) kv st
                                    | None \<Rightarrow> st)
                          in printKV (isHex s) (valueOnly s) (Kv e) st)"
  proof (cases "Event.PrevKv e")
    case None
    then show ?thesis
      using stdout_only_seq [OF stdout_only_Println stdout_only_printKV] by (simp add: Let_def)
  next
    case (Some kv)
    then show ?thesis
      using stdout_only_seq [OF stdout_only_seq [OF stdout_only_Println stdout_only_printKV]
          stdout_only_printKV]
      by (simp add: Let_def)
  qed
qed

lemma stdout_only_Grant: "stdout_only (Grant s resp)"
  by (rule stdout_only_direct) (simp add: Grant_def fmt_defs)

lemma stdout_only_Revoke: "stdout_only (Revoke s ident r)"
  by (rule stdout_only_direct) (simp add: Revoke_def fmt_defs)

lemma stdout_only_KeepAlive: "stdout_only (KeepAlive s resp)"
  by (rule stdout_only_direct) (simp add: KeepAlive_def fmt_defs)

lemma stdout_only_TimeToLive: "stdout_only (TimeToLive s resp keys)"
  by (rule stdout_only_direct) (simp add: TimeToLive_def fmt_defs)

lemma stdout_only_Leases: "stdout_only (Leases s resp)"
proof -
  have loop: "stdout_only (fold (\<lambda>item. fmt_Printf (fmt_016x (sint (LeaseStatus.ID item)) @ nl))
                (Leases_list resp))"
    by (rule stdout_only_fold) simp
  show ?thesis
    unfolding Leases_def [abs_def] Let_def
    by (rule stdout_only_seq [OF stdout_only_Printf loop])
qed

lemma stdout_only_Alarm: "stdout_only (Alarm f s resp)"
  unfolding Alarm_def [abs_def] by (rule stdout_only_fold) simp

lemma stdout_only_MemberAdd: "stdout_only (MemberAdd s r)"
  by (rule stdout_only_direct) (simp add: MemberAdd_def fmt_defs)

lemma stdout_only_MemberRemove: "stdout_only (MemberRemove s ident r)"
  by (rule stdout_only_direct) (simp add: MemberRemove_def fmt_defs)

lemma stdout_only_MemberUpdate: "stdout_only (MemberUpdate s ident r)"
  by (rule stdout_only_direct) (simp add: MemberUpdate_def fmt_defs)

lemma stdout_only_MemberPromote: "stdout_only (MemberPromote s ident r)"
  by (rule stdout_only_direct) (simp add: MemberPromote_def fmt_defs)

lemma stdout_only_MemberList: "stdout_only (MemberList mk s resp)"
  unfolding MemberList_def [abs_def] Let_def by (rule stdout_only_fold) simp

lemma stdout_only_EndpointStatus: "stdout_only (EndpointStatus mk s resp)"
  unfolding EndpointStatus_def [abs_def] Let_def by (rule stdout_only_fold) simp

lemma stdout_only_EndpointHashKV: "stdout_only (EndpointHashKV mk s resp)"
  unfolding EndpointHashKV_def [abs_def] Let_def by (rule stdout_only_fold) simp

lemma stdout_only_MoveLeader: "stdout_only (MoveLeader s leader target r)"
  by (rule stdout_only_direct) (simp add: MoveLeader_def fmt_defs)

lemma stdout_only_DowngradeValidate: "stdout_only (DowngradeValidate s r)"
  by (rule stdout_only_direct) (simp add: DowngradeValidate_def fmt_defs)

lemma stdout_only_DowngradeEnable: "stdout_only (DowngradeEnable s r)"
  by (rule stdout_only_direct) (simp add: DowngradeEnable_def fmt_defs)

lemma stdout_only_DowngradeCancel: "stdout_only (DowngradeCancel s r)"
  by (rule stdout_only_direct) (simp add: DowngradeCancel_def fmt_defs)

lemma stdout_only_RoleAdd: "stdout_only (RoleAdd s role r)"
  by (rule stdout_only_direct) (simp add: RoleAdd_def fmt_defs)

lemma stdout_only_RoleList: "stdout_only (RoleList s r)"
  unfolding RoleList_def [abs_def] by (rule stdout_only_fold) simp

lemma stdout_only_RoleDelete: "stdout_only (RoleDelete s role r)"
  by (rule stdout_only_direct) (simp add: RoleDelete_def fmt_defs)

lemma stdout_only_RoleGrantPermission: "stdout_only (RoleGrantPermission s role r)"
  by (rule stdout_only_direct) (simp add: RoleGrantPermission_def fmt_defs)

lemma stdout_only_RoleRevokePermission: "stdout_only (RoleRevokePermission s role key end r)"
  by (rule stdout_only_direct) (simp add: RoleRevokePermission_def fmt_defs)

lemma stdout_only_UserAdd: "stdout_only (UserAdd s name r)"
  by (rule stdout_only_direct) (simp add: UserAdd_def fmt_defs)

lemma stdout_only_UserGet: "stdout_only (UserGet s name r)"
proof -
  have loop: "stdout_only (fold (\<lambda>role. fmt_Printf ('' '' @ role)) (AuthUserGetResponse.Roles r))"
    by (rule stdout_only_fold) simp
  have "stdout_only (\<lambda>st. fmt_Print nl
          (fold (\<lambda>role. fmt_Printf ('' '' @ role)) (AuthUserGetResponse.Roles r)
             (fmt_Print ''Roles:'' (fmt_Printf (''User: '' @ name @ nl) st))))"
    by (rule stdout_only_seq [OF stdout_only_seq [OF stdout_only_seq
          [OF stdout_only_Printf stdout_only_Print] loop] stdout_only_Print])
  then show ?thesis by (simp add: UserGet_def [abs_def] Let_def)
qed

lemma stdout_only_UserChangePassword: "stdout_only (UserChangePassword s r)"
  by (rule stdout_only_direct) (simp add: UserChangePassword_def fmt_defs)

lemma stdout_only_UserGrantRole: "stdout_only (UserGrantRole s user role r)"
  by (rule stdout_only_direct) (simp add: UserGrantRole_def fmt_defs)

lemma stdout_only_UserRevokeRole: "stdout_only (UserRevokeRole s user role r)"
  by (rule stdout_only_direct) (simp add: UserRevokeRole_def fmt_defs)

lemma stdout_only_UserDelete: "stdout_only (UserDelete s user r)"
  by (rule stdout_only_direct) (simp add: UserDelete_def fmt_defs)

lemma stdout_only_UserList: "stdout_only (UserList s r)"
  unfolding UserList_def [abs_def] by (rule stdout_only_fold) simp

lemma stdout_only_AuthStatus: "stdout_only (AuthStatus s r)"
  by (rule stdout_only_direct) (simp add: AuthStatus_def fmt_defs)

lemma concat_map_filter_if:
  "concat (map (\<lambda>x. if P x then f x else []) xs) = concat (map f (filter P xs))"
  by (induction xs) simp_all

lemma writes_printRange:
  "writes (printRange perm)
     (tab @ ''['' @ Key perm
        @ (if RangeEnd perm = nul then '', <open ended>'' else '', '' @ RangeEnd perm @ '')'')
        @ (if Key perm \<noteq> [] \<and> RangeEnd perm = GetPrefixRangeEnd (Key perm)
           then '' (prefix '' @ Key perm @ '')'' else [])
        @ nl) []"
  by (auto simp: writes_def printRange_def fmt_Printf_def fmt_Print_def Let_def)

lemma writes_RoleGet_read:
  "writes (RoleGet_read perm)
     (if PermType perm = PermRead \<or> PermType perm = PermReadWrite
      then (if RangeEnd perm = [] then tab @ Key perm @ nl else out_of (printRange perm))
      else []) []"
  using writes_printRange [of perm] writes_Printf [of "tab @ Key perm @ nl"] writes_skip
  by (auto simp: RoleGet_read_def [abs_def] writes_out_of [OF writes_printRange])

lemma writes_RoleGet_write:
  "writes (RoleGet_write perm)
     (if PermType perm = PermWrite \<or> PermType perm = PermReadWrite
      then (if RangeEnd perm = [] then tab @ Key perm @ nl else out_of (printRange perm))
      else []) []"
  using writes_printRange [of perm] writes_Printf [of "tab @ Key perm @ nl"] writes_skip
  by (auto simp: RoleGet_write_def [abs_def] writes_out_of [OF writes_printRange])

lemma writes_RoleGet_reads:
  "writes (fold RoleGet_read perms)
     (concat (map (\<lambda>perm. if RangeEnd perm = [] then tab @ Key perm @ nl
                           else out_of (printRange perm))
        (filter (\<lambda>perm. PermType perm = PermRead \<or> PermType perm = PermReadWrite) perms))) []"
proof -
  have "writes (fold RoleGet_read perms)
          (concat (map (\<lambda>perm. out_of (RoleGet_read perm)) perms)) []"
    by (rule writes_fold_stdout) (use writes_RoleGet_read in blast)
  then show ?thesis
    by (simp only: writes_out_of [OF writes_RoleGet_read] concat_map_filter_if)
qed

lemma writes_RoleGet_writes:
  "writes (fold RoleGet_write perms)
     (concat (map (\<lambda>perm. if RangeEnd perm = [] then tab @ Key perm @ nl
                           else out_of (printRange perm))
        (filter (\<lambda>perm. PermType perm = PermWrite \<or> PermType perm = PermReadWrite) perms))) []"
proof -
  have "writes (fold RoleGet_write perms)
          (concat (map (\<lambda>perm. out_of (RoleGet_write perm)) perms)) []"
    by (rule writes_fold_stdout) (use writes_RoleGet_write in blast)
  then show ?thesis
    by (simp only: writes_out_of [OF writes_RoleGet_write] concat_map_filter_if)
qed

lemma writes_RoleGet_entries:
  assumes "\<not> (rootRole = role \<and> Perm r = None)"
  shows "writes (RoleGet s role r)
     (''Role '' @ role @ nl @ ''KV Read:'' @ nl
        @ concat (map (\<lambda>perm. if RangeEnd perm = [] then tab @ Key perm @ nl
                              else out_of (printRange perm))
            (filter (\<lambda>perm. PermType perm = PermRead \<or> PermType perm = PermReadWrite)
               (range_of (Perm r))))
        @ ''KV Write:'' @ nl
        @ concat (map (\<lambda>perm. if RangeEnd perm = [] then tab @ Key perm @ nl
                              else out_of (printRange perm))
            (filter (\<lambda>perm. PermType perm = PermWrite \<or> PermType perm = PermReadWrite)
               (range_of (Perm r))))) []"
proof -
  note hdr = writes_seq [OF writes_Printf [of "''Role '' @ role @ nl"]
      writes_Println [of "''KV Read:''"]]
  note rd = writes_seq [OF hdr writes_RoleGet_reads [of "range_of (Perm r)"]]
  note wr = writes_seq [OF writes_seq [OF rd writes_Println [of "''KV Write:''"]]
      writes_RoleGet_writes [of "range_of (Perm r)"]]
  from assms have normal: "(rootRole = role \<and> Perm r = None) \<longleftrightarrow> False"
    by simp
  show ?thesis
    unfolding RoleGet_def [abs_def] Let_def normal if_False using wr by simp
qed

lemma writes_RoleGet_root:
  assumes "rootRole = role \<and> Perm r = None"
  shows "writes (RoleGet s role r)
     (''Role '' @ role @ nl @ ''KV Read:'' @ nl @ tab @ ''[, <open ended>'' @ nl
        @ ''KV Write:'' @ nl @ tab @ ''[, <open ended>'' @ nl) []"
  using assms
  by (simp add: writes_def RoleGet_def fmt_Printf_def fmt_Print_def fmt_Println_def Let_def)

lemma stdout_only_RoleGet: "stdout_only (RoleGet s role r)"
  using writes_RoleGet_root [of role r s] writes_RoleGet_entries [of role r s]
  by (cases "rootRole = role \<and> Perm r = None") (blast intro: stdout_onlyI)+

lemma writes_EndpointHealth:
  "writes (EndpointHealth s hs)
     (concat (map (\<lambda>h. if Error h = []
                        then Ep h @ '' is healthy: successfully committed proposal: took = ''
                               @ Took h @ nl
                        else []) hs))
     (concat (map (\<lambda>h. if Error h = [] then []
                        else Ep h @ '' is unhealthy: failed to commit proposal: ''
                               @ Error h @ nl) hs))"
  unfolding EndpointHealth_def [abs_def]
  by (rule writes_fold) (simp add: writes_def fmt_Printf_def fmt_Print_def fmt_Fprintf_Stderr_def)

lemmas stdout_only_methods =
  stdout_only_Del stdout_only_Get stdout_only_Put stdout_only_Txn stdout_only_Watch
  stdout_only_Grant stdout_only_Revoke stdout_only_KeepAlive stdout_only_TimeToLive
  stdout_only_Leases stdout_only_Alarm stdout_only_MemberAdd stdout_only_MemberRemove
  stdout_only_MemberUpdate stdout_only_MemberPromote stdout_only_MemberList
  stdout_only_EndpointStatus stdout_only_EndpointHashKV stdout_only_MoveLeader
  stdout_only_DowngradeValidate stdout_only_DowngradeEnable stdout_only_DowngradeCancel
  stdout_only_RoleAdd stdout_only_RoleGet stdout_only_RoleList stdout_only_RoleDelete
  stdout_only_RoleGrantPermission stdout_only_RoleRevokePermission stdout_only_UserAdd
  stdout_only_UserGet stdout_only_UserChangePassword stdout_only_UserGrantRole
  stdout_only_UserRevokeRole stdout_only_UserDelete stdout_only_UserList
  stdout_only_AuthStatus




text \<open>
  Claim C7. For a batch of endpoints, \<open>EndpointHealth\<close> writes, endpoint by endpoint and in
  order, one success line to the standard output and nothing to the standard error when the
  error string is empty, and one failure line with the error text to the standard error and
  nothing to the standard output otherwise; what one endpoint contributes does not depend on
  the others. No other entry point ever writes to the standard error.
\<close>

theorem EndpointHealth_routing:
  "EndpointHealth s hs st =
     st\<lparr>stdout := stdout st @ concat (map (\<lambda>h.
             if Error h = []
             then Ep h @ '' is healthy: successfully committed proposal: took = '' @ Took h @ nl
             else []) hs),
        stderr := stderr st @ concat (map (\<lambda>h.
             if Error h = [] then []
             else Ep h @ '' is unhealthy: failed to commit proposal: '' @ Error h @ nl) hs)\<rparr>
   \<and> stderr (invoke c s call st) =
       stderr st @ (case call of
                      Call_EndpointHealth hs' \<Rightarrow>
                        concat (map (\<lambda>h.
                          if Error h = [] then []
                          else Ep h @ '' is unhealthy: failed to commit proposal: '' @ Error h @ nl)
                          hs')
                    | _ \<Rightarrow> [])"
proof
  show "EndpointHealth s hs st =
     st\<lparr>stdout := stdout st @ concat (map (\<lambda>h.
             if Error h = []
             then Ep h @ '' is healthy: successfully committed proposal: took = '' @ Took h @ nl
             else []) hs),
        stderr := stderr st @ concat (map (\<lambda>h.
             if Error h = [] then []
             else Ep h @ '' is unhealthy: failed to commit proposal: '' @ Error h @ nl) hs)\<rparr>"
    by (rule writesD [OF writes_EndpointHealth])
next
  have health: "stderr (EndpointHealth s hs' st) =
      stderr st @ concat (map (\<lambda>h.
          if Error h = [] then []
          else Ep h @ '' is unhealthy: failed to commit proposal: '' @ Error h @ nl) hs')" for hs'
    using writesD [OF writes_EndpointHealth, of s hs' st] by simp
  show "stderr (invoke c s call st) =
       stderr st @ (case call of
                      Call_EndpointHealth hs' \<Rightarrow>
                        concat (map (\<lambda>h.
                          if Error h = [] then []
                          else Ep h @ '' is unhealthy: failed to commit proposal: '' @ Error h @ nl)
                          hs')
                    | _ \<Rightarrow> [])"
    by (cases call) (simp_all add: health stdout_only_methods [THEN stdout_only_stderr])
qed

lemma GetPrefixRangeEnd_all_FF:
  assumes "set key \<subseteq> {CHR 0xFF}"
  shows "GetPrefixRangeEnd key = []"
proof -
  have dw: "dropWhile (\<lambda>c. c = CHR 0xFF) (rev key) = []"
    using assms by (auto simp: dropWhile_eq_Nil_conv)
  show ?thesis unfolding GetPrefixRangeEnd_def dw by simp
qed

lemma succ_byte_not_NUL:
  assumes "c \<noteq> CHR 0xFF"
  shows "char_of (of_char c + (1::nat)) \<noteq> CHR 0x00"
proof
  assume "char_of (of_char c + (1::nat)) = CHR 0x00"
  then have "of_char (char_of (of_char c + (1::nat))) = (of_char (CHR 0x00) :: nat)"
    by simp
  then have "(of_char c + 1) mod 256 = (0::nat)" by simp
  moreover have "(of_char c :: nat) < 256" by simp
  ultimately have "(of_char c :: nat) = 255" by presburger
  then have "(of_char c :: nat) = of_char (CHR 0xFF)" by simp
  then have "c = CHR 0xFF" by (simp only: of_char_eq_iff)
  with assms show False by simp
qed

lemma GetPrefixRangeEnd_not_nul: "GetPrefixRangeEnd key \<noteq> nul"
proof (cases "dropWhile (\<lambda>c. c = CHR 0xFF) (rev key)")
  case Nil
  show ?thesis unfolding GetPrefixRangeEnd_def Nil by (simp add: nul_def)
next
  case (Cons c cs)
  have "\<not> (hd (dropWhile (\<lambda>c. c = CHR 0xFF) (rev key)) = CHR 0xFF)"
    by (rule hd_dropWhile) (simp add: Cons)
  then have "c \<noteq> CHR 0xFF" by (simp add: Cons)
  then have "char_of (of_char c + (1::nat)) \<noteq> CHR 0x00" by (rule succ_byte_not_NUL)
  then show ?thesis unfolding GetPrefixRangeEnd_def Cons by (simp add: nul_def)
qed

text \<open>
  Claim C2. For a permission with a non-empty range end, \<open>printRange\<close> appends
  \<open>(prefix <key>)\<close> after the range exactly when the key is non-empty and the range end is the
  prefix range end of the key. A key made of \<open>0xFF\<close> bytes only has the empty prefix range
  end, which a non-empty range end never equals: no annotation is written for it.
\<close>

theorem printRange_prefix:
  assumes "RangeEnd perm \<noteq> []"
  shows "printRange perm st =
           st\<lparr>stdout := stdout st @ tab @ ''['' @ Key perm
                 @ (if RangeEnd perm = nul then '', <open ended>''
                    else '', '' @ RangeEnd perm @ '')'')
                 @ (if Key perm \<noteq> [] \<and> RangeEnd perm = GetPrefixRangeEnd (Key perm)
                    then '' (prefix '' @ Key perm @ '')'' else [])
                 @ nl\<rparr>
         \<and> (set (Key perm) \<subseteq> {CHR 0xFF} \<longrightarrow>
              GetPrefixRangeEnd (Key perm) = []
              \<and> printRange perm st =
                  st\<lparr>stdout := stdout st @ tab @ ''['' @ Key perm
                        @ (if RangeEnd perm = nul then '', <open ended>''
                           else '', '' @ RangeEnd perm @ '')'')
                        @ nl\<rparr>)"
proof -
  have line: "printRange perm st =
           st\<lparr>stdout := stdout st @ tab @ ''['' @ Key perm
                 @ (if RangeEnd perm = nul then '', <open ended>''
                    else '', '' @ RangeEnd perm @ '')'')
                 @ (if Key perm \<noteq> [] \<and> RangeEnd perm = GetPrefixRangeEnd (Key perm)
                    then '' (prefix '' @ Key perm @ '')'' else [])
                 @ nl\<rparr>"
    using writesD [OF writes_printRange, of perm st] by simp
  moreover have "GetPrefixRangeEnd (Key perm) = []
      \<and> printRange perm st =
          st\<lparr>stdout := stdout st @ tab @ ''['' @ Key perm
                @ (if RangeEnd perm = nul then '', <open ended>''
                   else '', '' @ RangeEnd perm @ '')'')
                @ nl\<rparr>"
    if ff: "set (Key perm) \<subseteq> {CHR 0xFF}"
  proof -
    have none: "GetPrefixRangeEnd (Key perm) = []"
      using ff by (rule GetPrefixRangeEnd_all_FF)
    with assms have "RangeEnd perm \<noteq> GetPrefixRangeEnd (Key perm)" by simp
    with line none show ?thesis by simp
  qed
  ultimately show ?thesis by blast
qed

theorem printRange_prefix_witness:
  "RangeEnd \<lparr>PermType = PermRead, Key = ''a'', RangeEnd = ''b''\<rparr> \<noteq> []
   \<and> printRange \<lparr>PermType = PermRead, Key = ''a'', RangeEnd = ''b''\<rparr> no_output
       = \<lparr>stdout = tab @ ''[a, b) (prefix a)'' @ nl, stderr = []\<rparr>
   \<and> set (Key \<lparr>PermType = PermRead, Key = [CHR 0xFF, CHR 0xFF], RangeEnd = ''b''\<rparr>) \<subseteq> {CHR 0xFF}
   \<and> printRange \<lparr>PermType = PermRead, Key = [CHR 0xFF, CHR 0xFF], RangeEnd = ''b''\<rparr> no_output
       = \<lparr>stdout = tab @ ''['' @ [CHR 0xFF, CHR 0xFF] @ '', b)'' @ nl, stderr = []\<rparr>"
proof -
  have ab: "GetPrefixRangeEnd ''a'' = ''b''" by code_simp
  have nn: "''b'' \<noteq> nul" by (simp add: nul_def)
  show ?thesis
    using printRange_prefix [of "\<lparr>PermType = PermRead, Key = ''a'', RangeEnd = ''b''\<rparr>" no_output]
      printRange_prefix [of "\<lparr>PermType = PermRead, Key = [CHR 0xFF, CHR 0xFF], RangeEnd = ''b''\<rparr>" no_output]
    by (simp add: ab nn no_output_def)
qed

text \<open>
  Claim C3. When the range end is the one-byte NUL sentinel, the line \<open>printRange\<close> writes is
  the tab, \<open>[<key>, <open ended>\<close> and the line break, with no closing token; for any other
  range end the range is written as \<open>[<key>, <rangeEnd>)\<close>, followed by the prefix annotation
  when it applies.
\<close>

theorem printRange_text:
  "(RangeEnd perm = nul \<longrightarrow>
      printRange perm st =
        st\<lparr>stdout := stdout st @ tab @ ''['' @ Key perm @ '', <open ended>'' @ nl\<rparr>)
   \<and> (RangeEnd perm \<noteq> nul \<longrightarrow>
      printRange perm st =
        st\<lparr>stdout := stdout st @ tab @ ''['' @ Key perm @ '', '' @ RangeEnd perm @ '')''
              @ (if Key perm \<noteq> [] \<and> RangeEnd perm = GetPrefixRangeEnd (Key perm)
                 then '' (prefix '' @ Key perm @ '')'' else [])
              @ nl\<rparr>)"
proof (intro conjI impI)
  assume open_ended: "RangeEnd perm = nul"
  then have "RangeEnd perm \<noteq> GetPrefixRangeEnd (Key perm)"
    using GetPrefixRangeEnd_not_nul [of "Key perm"] by simp
  with open_ended writesD [OF writes_printRange, of perm st]
  show "printRange perm st =
        st\<lparr>stdout := stdout st @ tab @ ''['' @ Key perm @ '', <open ended>'' @ nl\<rparr>"
    by simp
next
  assume "RangeEnd perm \<noteq> nul"
  with writesD [OF writes_printRange, of perm st]
  show "printRange perm st =
        st\<lparr>stdout := stdout st @ tab @ ''['' @ Key perm @ '', '' @ RangeEnd perm @ '')''
              @ (if Key perm \<noteq> [] \<and> RangeEnd perm = GetPrefixRangeEnd (Key perm)
                 then '' (prefix '' @ Key perm @ '')'' else [])
              @ nl\<rparr>"
    by simp
qed

theorem printRange_text_witness:
  "RangeEnd \<lparr>PermType = PermWrite, Key = ''a'', RangeEnd = nul\<rparr> = nul
   \<and> printRange \<lparr>PermType = PermWrite, Key = ''a'', RangeEnd = nul\<rparr> no_output
       = \<lparr>stdout = tab @ ''[a, <open ended>'' @ nl, stderr = []\<rparr>
   \<and> RangeEnd \<lparr>PermType = PermWrite, Key = ''a'', RangeEnd = ''c''\<rparr> \<noteq> nul
   \<and> printRange \<lparr>PermType = PermWrite, Key = ''a'', RangeEnd = ''c''\<rparr> no_output
       = \<lparr>stdout = tab @ ''[a, c)'' @ nl, stderr = []\<rparr>"
proof -
  have ab: "GetPrefixRangeEnd ''a'' = ''b''" by code_simp
  have nn: "''c'' \<noteq> nul" by (simp add: nul_def)
  show ?thesis
    using printRange_text [of "\<lparr>PermType = PermWrite, Key = ''a'', RangeEnd = nul\<rparr>" no_output]
      printRange_text [of "\<lparr>PermType = PermWrite, Key = ''a'', RangeEnd = ''c''\<rparr>" no_output]
    by (simp add: ab nn no_output_def)
qed





lemma digit_char_hex: "d < 16 \<Longrightarrow> digit_char d \<in> set ''0123456789abcdef''"
  unfolding digit_char_def by (rule nth_mem) simp

lemma digit_char_dec: "d < 10 \<Longrightarrow> digit_char d \<in> set ''0123456789''"
proof -
  assume "d < 10"
  then have "''0123456789abcdef'' ! d = ''0123456789'' ! d \<and> d < length ''0123456789''"
    by (simp add: nth_Cons')
  then show ?thesis unfolding digit_char_def by (metis nth_mem)
qed

lemma FormatUint_hex: "set (FormatUint n 16) \<subseteq> set ''0123456789abcdef''"
proof (induction n "16::nat" rule: FormatUint.induct)
  case (1 n)
  show ?case
  proof (cases "16 \<le> n")
    case True
    have "digit_char (n mod 16) \<in> set ''0123456789abcdef''" by (rule digit_char_hex) simp
    with 1 True show ?thesis by (subst FormatUint.simps) simp
  next
    case False
    then have "digit_char n \<in> set ''0123456789abcdef''" by (intro digit_char_hex) simp
    with False show ?thesis by (subst FormatUint.simps) simp
  qed
qed

lemma FormatUint_dec: "set (FormatUint n 10) \<subseteq> set ''0123456789''"
proof (induction n "10::nat" rule: FormatUint.induct)
  case (1 n)
  show ?case
  proof (cases "10 \<le> n")
    case True
    have "digit_char (n mod 10) \<in> set ''0123456789''" by (rule digit_char_dec) simp
    with 1 True show ?thesis by (subst FormatUint.simps) simp
  next
    case False
    then have "digit_char n \<in> set ''0123456789''" by (intro digit_char_dec) simp
    with False show ?thesis by (subst FormatUint.simps) simp
  qed
qed

lemma x_notin_fmt_d: "CHR ''x'' \<notin> set (fmt_d i)"
  using FormatUint_dec [of "nat i"] FormatUint_dec [of "nat (- i)"]
  by (auto simp: fmt_d_def)

lemma x_notin_fmt_016x: "CHR ''x'' \<notin> set (fmt_016x i)"
  using FormatUint_hex [of "nat \<bar>i\<bar>"]
  by (auto simp: fmt_016x_def Let_def)

lemma newline_notin_fmt_016x: "CHR 0x0A \<notin> set (fmt_016x i)"
  using FormatUint_hex [of "nat \<bar>i\<bar>"]
  by (auto simp: fmt_016x_def Let_def)

lemma no_x_no_expired: "CHR ''x'' \<notin> set line \<Longrightarrow> \<not> sublist ''expired'' line"
  using set_mono_sublist [of "''expired''" line] by auto

lemma TimeToLive_head_no_expired:
  "\<not> sublist ''expired''
       (''lease '' @ fmt_016x i @ '' granted with TTL('' @ fmt_d g @ ''s), remaining(''
          @ fmt_d t @ ''s)'')"
proof (rule no_x_no_expired)
  show "CHR ''x'' \<notin> set (''lease '' @ fmt_016x i @ '' granted with TTL('' @ fmt_d g
                           @ ''s), remaining('' @ fmt_d t @ ''s)'')"
    using x_notin_fmt_016x [of i] x_notin_fmt_d [of g] x_notin_fmt_d [of t] by simp
qed

lemma TimeToLive_expired_one_line:
  "CHR 0x0A \<notin> set (''lease '' @ fmt_016x i @ '' already expired'')"
  using newline_notin_fmt_016x [of i] by simp

text \<open>
  Claim C4, amended. When the granted time to live is zero and the remaining one is \<open>-1\<close>,
  \<open>TimeToLive\<close> writes the single line \<open>lease <id> already expired\<close>, which shows neither
  number, and returns. In every other case it writes one line that starts with
  \<open>lease <id> granted with TTL(<granted>s), remaining(<remaining>s)\<close>: this part contains
  both numbers and never the text \<open>expired\<close>. Only the attached keys, listed after it when
  the caller asks for them, can bring that text in.
\<close>

theorem TimeToLive_lines:
  "(GrantedTTL resp = 0 \<and> LeaseTimeToLiveResponse.TTL resp = - 1 \<longrightarrow>
      TimeToLive s resp keys st =
        st\<lparr>stdout := stdout st @ ''lease '' @ fmt_016x (sint (LeaseTimeToLiveResponse.ID resp))
              @ '' already expired'' @ nl\<rparr>
      \<and> CHR 0x0A \<notin> set (''lease '' @ fmt_016x (sint (LeaseTimeToLiveResponse.ID resp))
                             @ '' already expired''))
   \<and> (\<not> (GrantedTTL resp = 0 \<and> LeaseTimeToLiveResponse.TTL resp = - 1) \<longrightarrow>
      (let head = ''lease '' @ fmt_016x (sint (LeaseTimeToLiveResponse.ID resp))
                    @ '' granted with TTL('' @ fmt_d (sint (GrantedTTL resp))
                    @ ''s), remaining('' @ fmt_d (sint (LeaseTimeToLiveResponse.TTL resp)) @ ''s)''
       in TimeToLive s resp keys st =
            st\<lparr>stdout := stdout st @ head
                  @ (if keys then '', attached keys('' @ fmt_v_strings (Keys resp) @ '')'' else [])
                  @ nl\<rparr>
          \<and> sublist (fmt_d (sint (GrantedTTL resp))) head
          \<and> sublist (fmt_d (sint (LeaseTimeToLiveResponse.TTL resp))) head
          \<and> \<not> sublist ''expired'' head))"
proof (intro conjI impI)
  assume "GrantedTTL resp = 0 \<and> LeaseTimeToLiveResponse.TTL resp = - 1"
  then show "TimeToLive s resp keys st =
        st\<lparr>stdout := stdout st @ ''lease '' @ fmt_016x (sint (LeaseTimeToLiveResponse.ID resp))
              @ '' already expired'' @ nl\<rparr>"
    by (simp add: TimeToLive_def fmt_Printf_def fmt_Print_def)
next
  show "CHR 0x0A \<notin> set (''lease '' @ fmt_016x (sint (LeaseTimeToLiveResponse.ID resp))
                             @ '' already expired'')"
    by (rule TimeToLive_expired_one_line)
next
  assume live: "\<not> (GrantedTTL resp = 0 \<and> LeaseTimeToLiveResponse.TTL resp = - 1)"
  define head where "head = ''lease '' @ fmt_016x (sint (LeaseTimeToLiveResponse.ID resp))
                    @ '' granted with TTL('' @ fmt_d (sint (GrantedTTL resp))
                    @ ''s), remaining('' @ fmt_d (sint (LeaseTimeToLiveResponse.TTL resp)) @ ''s)''"
  have run: "TimeToLive s resp keys st =
            st\<lparr>stdout := stdout st @ head
                  @ (if keys then '', attached keys('' @ fmt_v_strings (Keys resp) @ '')'' else [])
                  @ nl\<rparr>"
  proof -
    from live have branch: "(GrantedTTL resp = 0 \<and> LeaseTimeToLiveResponse.TTL resp = - 1) \<longleftrightarrow> False"
      by simp
    show ?thesis
      unfolding TimeToLive_def branch if_False
      by (simp add: fmt_Println_def fmt_Print_def Let_def head_def)
  qed
  have granted: "sublist (fmt_d (sint (GrantedTTL resp))) head"
    unfolding head_def sublist_def
    by (intro exI [of _ "''lease '' @ fmt_016x (sint (LeaseTimeToLiveResponse.ID resp))
                           @ '' granted with TTL(''"]
              exI [of _ "''s), remaining('' @ fmt_d (sint (LeaseTimeToLiveResponse.TTL resp))
                           @ ''s)''"]) simp
  have remaining: "sublist (fmt_d (sint (LeaseTimeToLiveResponse.TTL resp))) head"
    unfolding head_def sublist_def
    by (intro exI [of _ "''lease '' @ fmt_016x (sint (LeaseTimeToLiveResponse.ID resp))
                           @ '' granted with TTL('' @ fmt_d (sint (GrantedTTL resp))
                           @ ''s), remaining(''"]
              exI [of _ "''s)''"]) simp
  have quiet: "\<not> sublist ''expired'' head"
    unfolding head_def by (rule TimeToLive_head_no_expired)
  from run granted remaining quiet
  show "let head = ''lease '' @ fmt_016x (sint (LeaseTimeToLiveResponse.ID resp))
                    @ '' granted with TTL('' @ fmt_d (sint (GrantedTTL resp))
                    @ ''s), remaining('' @ fmt_d (sint (LeaseTimeToLiveResponse.TTL resp)) @ ''s)''
       in TimeToLive s resp keys st =
            st\<lparr>stdout := stdout st @ head
                  @ (if keys then '', attached keys('' @ fmt_v_strings (Keys resp) @ '')'' else [])
                  @ nl\<rparr>
          \<and> sublist (fmt_d (sint (GrantedTTL resp))) head
          \<and> sublist (fmt_d (sint (LeaseTimeToLiveResponse.TTL resp))) head
          \<and> \<not> sublist ''expired'' head"
    unfolding Let_def head_def by blast
qed

theorem TimeToLive_lines_witness:
  "(GrantedTTL \<lparr>LeaseTimeToLiveResponse.ID = 7, TTL = - 1, GrantedTTL = 0, Keys = []\<rparr> = 0
      \<and> LeaseTimeToLiveResponse.TTL \<lparr>LeaseTimeToLiveResponse.ID = 7, TTL = - 1, GrantedTTL = 0, Keys = []\<rparr> = - 1)
   \<and> TimeToLive \<lparr>isHex = False, valueOnly = False\<rparr>
         \<lparr>LeaseTimeToLiveResponse.ID = 7, TTL = - 1, GrantedTTL = 0, Keys = []\<rparr> True no_output
       = \<lparr>stdout = ''lease 0000000000000007 already expired'' @ nl, stderr = []\<rparr>
   \<and> \<not> (GrantedTTL \<lparr>LeaseTimeToLiveResponse.ID = 7, TTL = 3, GrantedTTL = 5, Keys = []\<rparr> = 0
        \<and> LeaseTimeToLiveResponse.TTL \<lparr>LeaseTimeToLiveResponse.ID = 7, TTL = 3, GrantedTTL = 5, Keys = []\<rparr> = - 1)
   \<and> TimeToLive \<lparr>isHex = False, valueOnly = False\<rparr>
         \<lparr>LeaseTimeToLiveResponse.ID = 7, TTL = 3, GrantedTTL = 5, Keys = []\<rparr> False no_output
       = \<lparr>stdout = ''lease 0000000000000007 granted with TTL(5s), remaining(3s)'' @ nl,
           stderr = []\<rparr>"
proof -
  have ident: "fmt_016x 7 = ''0000000000000007''" by code_simp
  have granted: "fmt_d 5 = ''5''" by code_simp
  have remaining: "fmt_d 3 = ''3''" by code_simp
  show ?thesis
    using TimeToLive_lines [of "\<lparr>LeaseTimeToLiveResponse.ID = 7, TTL = - 1, GrantedTTL = 0, Keys = []\<rparr>"
        "\<lparr>isHex = False, valueOnly = False\<rparr>" True no_output]
      TimeToLive_lines [of "\<lparr>LeaseTimeToLiveResponse.ID = 7, TTL = 3, GrantedTTL = 5, Keys = []\<rparr>"
        "\<lparr>isHex = False, valueOnly = False\<rparr>" False no_output]
    by (simp add: ident granted remaining Let_def no_output_def)
qed

text \<open>
  Claim C4 as stated fails: a live lease with an attached key named \<open>expired\<close>, listed on
  request, gives a line that contains \<open>expired\<close>.
\<close>

theorem TimeToLive_lines_counterexample:
  "\<not> (GrantedTTL \<lparr>LeaseTimeToLiveResponse.ID = 1, TTL = 3, GrantedTTL = 5, Keys = [''expired'']\<rparr> = 0
       \<and> LeaseTimeToLiveResponse.TTL \<lparr>LeaseTimeToLiveResponse.ID = 1, TTL = 3, GrantedTTL = 5, Keys = [''expired'']\<rparr> = - 1)
   \<and> stdout (TimeToLive \<lparr>isHex = False, valueOnly = False\<rparr>
               \<lparr>LeaseTimeToLiveResponse.ID = 1, TTL = 3, GrantedTTL = 5, Keys = [''expired'']\<rparr> True no_output)
       = ''lease 0000000000000001 granted with TTL(5s), remaining(3s), attached keys([expired])'' @ nl
   \<and> sublist ''expired''
        (stdout (TimeToLive \<lparr>isHex = False, valueOnly = False\<rparr>
                  \<lparr>LeaseTimeToLiveResponse.ID = 1, TTL = 3, GrantedTTL = 5, Keys = [''expired'']\<rparr> True no_output))"
  by code_simp

text \<open>
  Claim C5, amended. Every role and user administration rule writes one line to the standard
  output. For creating, deleting and updating a role, creating and deleting a user, changing a
  password, and granting or revoking a user's role the line is one fixed template filled with
  the role name, the user name or both, and nothing is tested. \<open>RoleRevokePermission\<close>
  chooses among three templates by its \<open>end\<close> argument (empty, the NUL sentinel, anything
  else) and also fills in the key and the range end.
\<close>

theorem admin_rules_templates:
  "RoleAdd s role r1 st = st\<lparr>stdout := stdout st @ ''Role '' @ role @ '' created'' @ nl\<rparr>
   \<and> RoleDelete s role r2 st = st\<lparr>stdout := stdout st @ ''Role '' @ role @ '' deleted'' @ nl\<rparr>
   \<and> RoleGrantPermission s role r3 st =
       st\<lparr>stdout := stdout st @ ''Role '' @ role @ '' updated'' @ nl\<rparr>
   \<and> UserAdd s user r4 st = st\<lparr>stdout := stdout st @ ''User '' @ user @ '' created'' @ nl\<rparr>
   \<and> UserDelete s user r5 st = st\<lparr>stdout := stdout st @ ''User '' @ user @ '' deleted'' @ nl\<rparr>
   \<and> UserChangePassword s r6 st = st\<lparr>stdout := stdout st @ ''Password updated'' @ nl\<rparr>
   \<and> UserGrantRole s user role r7 st =
       st\<lparr>stdout := stdout st @ ''Role '' @ role @ '' is granted to user '' @ user @ nl\<rparr>
   \<and> UserRevokeRole s user role r8 st =
       st\<lparr>stdout := stdout st @ ''Role '' @ role @ '' is revoked from user '' @ user @ nl\<rparr>
   \<and> RoleRevokePermission s role key end r9 st =
       st\<lparr>stdout := stdout st
             @ (if end = [] then ''Permission of key '' @ key @ '' is revoked from role '' @ role
                else if end = nul then
                  ''Permission of range ['' @ key @ '', <open ended> is revoked from role '' @ role
                else
                  ''Permission of range ['' @ key @ '', '' @ end @ '') is revoked from role '' @ role)
             @ nl\<rparr>"
proof (intro conjI)
  show "RoleAdd s role r1 st = st\<lparr>stdout := stdout st @ ''Role '' @ role @ '' created'' @ nl\<rparr>"
    by (simp add: RoleAdd_def fmt_Printf_def fmt_Print_def)
  show "RoleDelete s role r2 st = st\<lparr>stdout := stdout st @ ''Role '' @ role @ '' deleted'' @ nl\<rparr>"
    by (simp add: RoleDelete_def fmt_Printf_def fmt_Print_def)
  show "RoleGrantPermission s role r3 st =
       st\<lparr>stdout := stdout st @ ''Role '' @ role @ '' updated'' @ nl\<rparr>"
    by (simp add: RoleGrantPermission_def fmt_Printf_def fmt_Print_def)
  show "UserAdd s user r4 st = st\<lparr>stdout := stdout st @ ''User '' @ user @ '' created'' @ nl\<rparr>"
    by (simp add: UserAdd_def fmt_Printf_def fmt_Print_def)
  show "UserDelete s user r5 st = st\<lparr>stdout := stdout st @ ''User '' @ user @ '' deleted'' @ nl\<rparr>"
    by (simp add: UserDelete_def fmt_Printf_def fmt_Print_def)
  show "UserChangePassword s r6 st = st\<lparr>stdout := stdout st @ ''Password updated'' @ nl\<rparr>"
    by (simp add: UserChangePassword_def fmt_Println_def fmt_Print_def)
  show "UserGrantRole s user role r7 st =
       st\<lparr>stdout := stdout st @ ''Role '' @ role @ '' is granted to user '' @ user @ nl\<rparr>"
    by (simp add: UserGrantRole_def fmt_Printf_def fmt_Print_def)
  show "UserRevokeRole s user role r8 st =
       st\<lparr>stdout := stdout st @ ''Role '' @ role @ '' is revoked from user '' @ user @ nl\<rparr>"
    by (simp add: UserRevokeRole_def fmt_Printf_def fmt_Print_def)
  show "RoleRevokePermission s role key end r9 st =
       st\<lparr>stdout := stdout st
             @ (if end = [] then ''Permission of key '' @ key @ '' is revoked from role '' @ role
                else if end = nul then
                  ''Permission of range ['' @ key @ '', <open ended> is revoked from role '' @ role
                else
                  ''Permission of range ['' @ key @ '', '' @ end @ '') is revoked from role '' @ role)
             @ nl\<rparr>"
    by (simp add: RoleRevokePermission_def fmt_Printf_def fmt_Print_def)
qed

text \<open>
  Claim C5 as stated fails for \<open>RoleRevokePermission\<close>: for one and the same role and key,
  the three kinds of range end give three different lines.
\<close>

theorem admin_rules_counterexample:
  "stdout (RoleRevokePermission \<lparr>isHex = False, valueOnly = False\<rparr> ''dev'' ''k'' [] () no_output)
     = ''Permission of key k is revoked from role dev'' @ nl
   \<and> stdout (RoleRevokePermission \<lparr>isHex = False, valueOnly = False\<rparr> ''dev'' ''k'' nul () no_output)
     = ''Permission of range [k, <open ended> is revoked from role dev'' @ nl
   \<and> stdout (RoleRevokePermission \<lparr>isHex = False, valueOnly = False\<rparr> ''dev'' ''k'' ''z'' () no_output)
     = ''Permission of range [k, z) is revoked from role dev'' @ nl
   \<and> RoleRevokePermission \<lparr>isHex = False, valueOnly = False\<rparr> ''dev'' ''k'' [] () no_output
     \<noteq> RoleRevokePermission \<lparr>isHex = False, valueOnly = False\<rparr> ''dev'' ''k'' ''z'' () no_output"
  by (simp add: RoleRevokePermission_def fmt_Printf_def fmt_Print_def no_output_def nul_def nl_def)

text \<open>
  Claim C6, amended. For a lease that has not expired, when the caller asks for the keys,
  \<open>TimeToLive\<close> appends the attached keys between brackets, verbatim and separated by single
  blanks (not by commas). What it writes is the same whatever the hex flag of the printer.
\<close>

theorem TimeToLive_keys:
  "(\<not> (GrantedTTL resp = 0 \<and> LeaseTimeToLiveResponse.TTL resp = - 1) \<longrightarrow>
      TimeToLive s resp True st =
        st\<lparr>stdout := stdout st @ ''lease '' @ fmt_016x (sint (LeaseTimeToLiveResponse.ID resp))
              @ '' granted with TTL('' @ fmt_d (sint (GrantedTTL resp))
              @ ''s), remaining('' @ fmt_d (sint (LeaseTimeToLiveResponse.TTL resp)) @ ''s)''
              @ '', attached keys(['' @ strings_Join (Keys resp) '' '' @ ''])'' @ nl\<rparr>)
   \<and> TimeToLive (s\<lparr>isHex := hex\<rparr>) resp keys st = TimeToLive s resp keys st"
proof (intro conjI impI)
  assume live: "\<not> (GrantedTTL resp = 0 \<and> LeaseTimeToLiveResponse.TTL resp = - 1)"
  then have branch: "(GrantedTTL resp = 0 \<and> LeaseTimeToLiveResponse.TTL resp = - 1) \<longleftrightarrow> False"
    by simp
  show "TimeToLive s resp True st =
        st\<lparr>stdout := stdout st @ ''lease '' @ fmt_016x (sint (LeaseTimeToLiveResponse.ID resp))
              @ '' granted with TTL('' @ fmt_d (sint (GrantedTTL resp))
              @ ''s), remaining('' @ fmt_d (sint (LeaseTimeToLiveResponse.TTL resp)) @ ''s)''
              @ '', attached keys(['' @ strings_Join (Keys resp) '' '' @ ''])'' @ nl\<rparr>"
    unfolding TimeToLive_def branch if_False
    by (simp add: fmt_Println_def fmt_Print_def fmt_v_strings_def Let_def)
next
  show "TimeToLive (s\<lparr>isHex := hex\<rparr>) resp keys st = TimeToLive s resp keys st"
    by (simp add: TimeToLive_def)
qed

theorem TimeToLive_keys_witness:
  "\<not> (GrantedTTL \<lparr>LeaseTimeToLiveResponse.ID = 7, TTL = 3, GrantedTTL = 5, Keys = [''a'', ''b'']\<rparr> = 0
        \<and> LeaseTimeToLiveResponse.TTL \<lparr>LeaseTimeToLiveResponse.ID = 7, TTL = 3, GrantedTTL = 5, Keys = [''a'', ''b'']\<rparr> = - 1)
   \<and> TimeToLive \<lparr>isHex = True, valueOnly = False\<rparr>
         \<lparr>LeaseTimeToLiveResponse.ID = 7, TTL = 3, GrantedTTL = 5, Keys = [''a'', ''b'']\<rparr> True no_output
       = \<lparr>stdout = ''lease 0000000000000007 granted with TTL(5s), remaining(3s), attached keys([a b])'' @ nl,
           stderr = []\<rparr>"
proof -
  have ident: "fmt_016x 7 = ''0000000000000007''" by code_simp
  have granted: "fmt_d 5 = ''5''" by code_simp
  have remaining: "fmt_d 3 = ''3''" by code_simp
  show ?thesis
    using TimeToLive_keys [of "\<lparr>LeaseTimeToLiveResponse.ID = 7, TTL = 3, GrantedTTL = 5, Keys = [''a'', ''b'']\<rparr>"
        "\<lparr>isHex = True, valueOnly = False\<rparr>" no_output]
    by (simp add: ident granted remaining no_output_def)
qed

text \<open>
  Claim C6 as stated fails: two attached keys \<open>a\<close> and \<open>b\<close> are written as \<open>[a b]\<close>, with
  no comma between them.
\<close>

theorem TimeToLive_keys_counterexample:
  "stdout (TimeToLive \<lparr>isHex = False, valueOnly = False\<rparr>
            \<lparr>LeaseTimeToLiveResponse.ID = 7, TTL = 3, GrantedTTL = 5, Keys = [''a'', ''b'']\<rparr> True no_output)
     = ''lease 0000000000000007 granted with TTL(5s), remaining(3s), attached keys([a b])'' @ nl
   \<and> stdout (TimeToLive \<lparr>isHex = False, valueOnly = False\<rparr>
            \<lparr>LeaseTimeToLiveResponse.ID = 7, TTL = 3, GrantedTTL = 5, Keys = [''a'', ''b'']\<rparr> True no_output)
     \<noteq> ''lease 0000000000000007 granted with TTL(5s), remaining(3s), attached keys([a, b])'' @ nl
   \<and> stdout (TimeToLive \<lparr>isHex = False, valueOnly = False\<rparr>
            \<lparr>LeaseTimeToLiveResponse.ID = 7, TTL = 3, GrantedTTL = 5, Keys = [''a'', ''b'']\<rparr> True no_output)
     \<noteq> ''lease 0000000000000007 granted with TTL(5s), remaining(3s), attached keys([a,b])'' @ nl"
  by code_simp

end
